theory Spec2Isabelle
  imports Main "HOL-Library.AList" "HOL-Library.Word"
begin

unbundle bit_operations_syntax

section \<open>The todo service of \<^verbatim>\<open>main.py\<close>\<close>

text \<open>
  The service keeps its records in one module-level dict, \<^verbatim>\<open>todos\<close>, and exposes five
  handlers on it. The dict is threaded through the handlers as an association list in
  insertion order (the order of a Python dict); what the process reads from its
  environment (the random bytes behind \<^verbatim>\<open>uuid.uuid4()\<close>, the clock behind
  \<^verbatim>\<open>datetime.now()\<close>) comes with the request that needs it.
\<close>

subsection \<open>Errors\<close>

text \<open>
  \<^verbatim>\<open>HTTPException(status_code, detail)\<close> is what the code raises itself;
  \<^verbatim>\<open>RequestValidationError\<close> is what the framework raises when a body does not fit the
  declared model (HTTP 422), with the names of the offending fields; a pydantic
  \<^verbatim>\<open>ValidationError\<close> inside a handler and a \<^verbatim>\<open>KeyError\<close> of \<^verbatim>\<open>dict.pop\<close>
  would surface as a server error.
\<close>

datatype error =
    HTTPException nat string
  | RequestValidationError "string list"
  | ValidationError "string list"
  | KeyError string

definition HTTP_404_NOT_FOUND :: nat where
  "HTTP_404_NOT_FOUND = 404"

subsection \<open>The pydantic models\<close>

type_synonym datetime = int

text \<open>
  \<^verbatim>\<open>TodoCreate\<close> (lines 19-22) and \<^verbatim>\<open>Todo(TodoCreate)\<close> (lines 24-27). An
  \<^verbatim>\<open>Optional[...]\<close> field is an \<open>option\<close>, \<open>None\<close> being Python's \<^verbatim>\<open>None\<close>. Every
  pydantic model remembers which fields were given explicitly when it was built
  (\<^verbatim>\<open>model_fields_set\<close>); \<^verbatim>\<open>model_dump(exclude_unset=True)\<close> reads it. The timestamp
  is an integer number of clock ticks.
\<close>

record TodoCreate =
  title :: string
  description :: "string option"
  priority :: "int option"
  model_fields_set :: "string set"

record Todo = TodoCreate +
  id' :: string
  created_at :: datetime
  completed :: bool

text \<open>
  The result of \<^verbatim>\<open>model_dump\<close>: a dict with at most the keys \<^verbatim>\<open>title\<close>,
  \<^verbatim>\<open>description\<close>, \<^verbatim>\<open>priority\<close>. The outer \<open>option\<close> says whether the key is in the
  dict, the inner one is the value (\<^verbatim>\<open>None\<close> or not).
\<close>

record kwargs =
  kw_title :: "string option"
  kw_description :: "string option option"
  kw_priority :: "int option option"

definition model_dump :: "bool \<Rightarrow> TodoCreate \<Rightarrow> kwargs" where
  "model_dump exclude_unset m =
     \<lparr> kw_title =
         (if exclude_unset \<and> ''title'' \<notin> model_fields_set m then None else Some (title m)),
       kw_description =
         (if exclude_unset \<and> ''description'' \<notin> model_fields_set m then None
          else Some (description m)),
       kw_priority =
         (if exclude_unset \<and> ''priority'' \<notin> model_fields_set m then None
          else Some (priority m)) \<rparr>"

text \<open>
  The constructor call \<^verbatim>\<open>Todo(id=.., created_at=.., [completed=..,] **kw)\<close>. A field whose
  keyword is not passed takes the default of the class: \<^verbatim>\<open>description = None\<close>,
  \<^verbatim>\<open>priority = 1\<close>, \<^verbatim>\<open>completed = False\<close>; \<^verbatim>\<open>title\<close> has no default, and a call
  without it raises.
\<close>

definition Todo_init :: "string \<Rightarrow> datetime \<Rightarrow> bool option \<Rightarrow> kwargs \<Rightarrow> error + Todo" where
  "Todo_init i c done kw =
     (case kw_title kw of
        None \<Rightarrow> Inl (ValidationError [''title''])
      | Some t \<Rightarrow>
          Inr \<lparr> title = t,
                description = (case kw_description kw of None \<Rightarrow> None | Some d \<Rightarrow> d),
                priority = (case kw_priority kw of None \<Rightarrow> Some 1 | Some p \<Rightarrow> p),
                model_fields_set =
                  {''id'', ''created_at'', ''title''}
                  \<union> (case done of None \<Rightarrow> {} | Some _ \<Rightarrow> {''completed''})
                  \<union> (case kw_description kw of None \<Rightarrow> {} | Some _ \<Rightarrow> {''description''})
                  \<union> (case kw_priority kw of None \<Rightarrow> {} | Some _ \<Rightarrow> {''priority''}),
                id' = i,
                created_at = c,
                completed = (case done of None \<Rightarrow> False | Some b \<Rightarrow> b) \<rparr>)"

subsection \<open>Request bodies and their validation\<close>

text \<open>
  What a JSON object holds under one key, as the validator of a field of type \<open>'a\<close> sees
  it: the key is not there, it holds \<^verbatim>\<open>null\<close>, it holds a value the type accepts (and the
  value it is read as), or it holds a value the type rejects.
\<close>

datatype 'a json_field = Absent | JNull | JValue 'a | JWrongType

datatype json = JSNull | JSBool bool | JSInt int | JSStr string

text \<open>
  A request body: the three keys \<^verbatim>\<open>TodoCreate\<close> declares, and whatever other keys the
  client sent, which the model ignores (pydantic's default for undeclared keys).
\<close>

record body =
  b_title :: "string json_field"
  b_description :: "string json_field"
  b_priority :: "int json_field"
  b_extra :: "(string \<times> json) list"

text \<open>
  Validation against \<^verbatim>\<open>TodoCreate\<close>: \<^verbatim>\<open>title: str\<close> is required and not nullable;
  \<^verbatim>\<open>description: Optional[str] = None\<close> and \<^verbatim>\<open>priority: Optional[int] = 1\<close> may be
  absent (the default is taken and the field is not marked as set) or \<^verbatim>\<open>null\<close>.
\<close>

definition validation_errors :: "body \<Rightarrow> string list" where
  "validation_errors b =
     (case b_title b of JValue _ \<Rightarrow> [] | _ \<Rightarrow> [''title''])
     @ (case b_description b of JWrongType \<Rightarrow> [''description''] | _ \<Rightarrow> [])
     @ (case b_priority b of JWrongType \<Rightarrow> [''priority''] | _ \<Rightarrow> [])"

definition TodoCreate_validate :: "body \<Rightarrow> error + TodoCreate" where
  "TodoCreate_validate b =
     (if validation_errors b \<noteq> [] then Inl (RequestValidationError (validation_errors b))
      else Inr \<lparr> title = (case b_title b of JValue t \<Rightarrow> t | _ \<Rightarrow> []),
                 description = (case b_description b of JValue d \<Rightarrow> Some d | _ \<Rightarrow> None),
                 priority =
                   (case b_priority b of Absent \<Rightarrow> Some 1 | JValue p \<Rightarrow> Some p | _ \<Rightarrow> None),
                 model_fields_set =
                   {''title''}
                   \<union> (if b_description b = Absent then {} else {''description''})
                   \<union> (if b_priority b = Absent then {} else {''priority''}) \<rparr>)"

subsection \<open>Generated identifiers\<close>

text \<open>
  \<^verbatim>\<open>str(uuid.uuid4())\<close>: sixteen random bytes read as a 128-bit integer, the variant and
  version bits overwritten, printed as 32 lower-case hexadecimal digits in groups of
  8-4-4-4-12.
\<close>

definition uuid4 :: "128 word \<Rightarrow> 128 word" where
  "uuid4 r =
     (let i1 = r AND NOT (push_bit 48 0xc000);
          i2 = i1 OR push_bit 48 0x8000;
          i3 = i2 AND NOT (push_bit 64 0xf000)
      in i3 OR push_bit 76 4)"

definition hex_digit :: "nat \<Rightarrow> char" where
  "hex_digit n = ''0123456789abcdef'' ! (n mod 16)"

definition hex32 :: "128 word \<Rightarrow> string" where
  "hex32 w = map (\<lambda>k. hex_digit (unat (drop_bit (4 * (31 - k)) w AND 0xf))) [0..<32]"

definition uuid_str :: "128 word \<Rightarrow> string" where
  "uuid_str w =
     (let x = hex32 w
      in take 8 x @ ''-'' @ take 4 (drop 8 x) @ ''-'' @ take 4 (drop 12 x) @ ''-''
         @ take 4 (drop 16 x) @ ''-'' @ drop 20 x)"

record env =
  urandom :: "128 word"
  now :: datetime

subsection \<open>The store and the handlers\<close>

type_synonym store = "(string \<times> Todo) list"

text \<open>
  \<^verbatim>\<open>get_todo_by_id\<close> (lines 33-40). \<^verbatim>\<open>todos.get\<close> gives \<^verbatim>\<open>None\<close> for a missing key; a
  stored \<^verbatim>\<open>Todo\<close> object is always truthy, so \<^verbatim>\<open>not todo\<close> holds for a missing key only.
\<close>

definition get_todo_by_id :: "string \<Rightarrow> store \<Rightarrow> error + Todo" where
  "get_todo_by_id todo_id todos =
     (case map_of todos todo_id of
        None \<Rightarrow> Inl (HTTPException HTTP_404_NOT_FOUND
                       (''Todo with ID '' @ todo_id @ '' not found''))
      | Some todo \<Rightarrow> Inr todo)"

text \<open>\<^verbatim>\<open>create_todo\<close> (lines 42-52).\<close>

definition create_todo :: "env \<Rightarrow> TodoCreate \<Rightarrow> store \<Rightarrow> (error + Todo) \<times> store" where
  "create_todo e todo todos =
     (let todo_id = uuid_str (uuid4 (urandom e))
      in case Todo_init todo_id (now e) None (model_dump False todo) of
           Inl err \<Rightarrow> (Inl err, todos)
         | Inr new_todo \<Rightarrow> (Inr new_todo, AList.update todo_id new_todo todos))"

text \<open>\<^verbatim>\<open>list_todos\<close> (lines 54-57).\<close>

definition list_todos :: "store \<Rightarrow> Todo list" where
  "list_todos todos = map snd todos"

text \<open>\<^verbatim>\<open>get_todo\<close> (lines 59-62): the record its dependency found.\<close>

definition get_todo :: "Todo \<Rightarrow> Todo" where
  "get_todo todo = todo"

text \<open>\<^verbatim>\<open>update_todo\<close> (lines 64-78).\<close>

definition update_todo :: "string \<Rightarrow> TodoCreate \<Rightarrow> Todo \<Rightarrow> store \<Rightarrow> (error + Todo) \<times> store" where
  "update_todo todo_id update_data todo todos =
     (case Todo_init (id' todo) (created_at todo) (Some (completed todo))
             (model_dump True update_data) of
        Inl err \<Rightarrow> (Inl err, todos)
      | Inr updated_todo \<Rightarrow> (Inr updated_todo, AList.update todo_id updated_todo todos))"

text \<open>
  \<^verbatim>\<open>delete_todo\<close> (lines 80-84). \<^verbatim>\<open>todos.pop(k)\<close> raises \<^verbatim>\<open>KeyError\<close> when \<open>k\<close> is not a
  key.
\<close>

definition delete_todo :: "Todo \<Rightarrow> store \<Rightarrow> (error + unit) \<times> store" where
  "delete_todo todo todos =
     (if id' todo \<in> fst ` set todos then (Inr (), AList.delete (id' todo) todos)
      else (Inl (KeyError (id' todo)), todos))"

subsection \<open>Requests\<close>

text \<open>
  The routes of lines 42, 54, 59, 64 and 80. The framework first runs the dependency
  \<^verbatim>\<open>get_todo_by_id\<close> on the path's id, where the handler declares it, then validates
  the body, then calls the handler.
\<close>

datatype request =
    POST_todos env body
  | GET_todos
  | GET_todo string
  | PATCH_todo string body
  | DELETE_todo string

datatype response =
    Created Todo
  | OkList "Todo list"
  | Ok Todo
  | NoContent
  | Failed error

fun handle :: "request \<Rightarrow> store \<Rightarrow> response \<times> store" where
  "handle (POST_todos e b) todos =
     (case TodoCreate_validate b of
        Inl err \<Rightarrow> (Failed err, todos)
      | Inr todo \<Rightarrow>
          (case create_todo e todo todos of
             (Inl err, todos') \<Rightarrow> (Failed err, todos')
           | (Inr new_todo, todos') \<Rightarrow> (Created new_todo, todos')))"
| "handle GET_todos todos = (OkList (list_todos todos), todos)"
| "handle (GET_todo todo_id) todos =
     (case get_todo_by_id todo_id todos of
        Inl err \<Rightarrow> (Failed err, todos)
      | Inr todo \<Rightarrow> (Ok (get_todo todo), todos))"
| "handle (PATCH_todo todo_id b) todos =
     (case get_todo_by_id todo_id todos of
        Inl err \<Rightarrow> (Failed err, todos)
      | Inr todo \<Rightarrow>
          (case TodoCreate_validate b of
             Inl err \<Rightarrow> (Failed err, todos)
           | Inr update_data \<Rightarrow>
               (case update_todo todo_id update_data todo todos of
                  (Inl err, todos') \<Rightarrow> (Failed err, todos')
                | (Inr updated_todo, todos') \<Rightarrow> (Ok updated_todo, todos'))))"
| "handle (DELETE_todo todo_id) todos =
     (case get_todo_by_id todo_id todos of
        Inl err \<Rightarrow> (Failed err, todos)
      | Inr todo \<Rightarrow>
          (case delete_todo todo todos of
             (Inl err, todos') \<Rightarrow> (Failed err, todos')
           | (Inr _, todos') \<Rightarrow> (NoContent, todos')))"

text \<open>
  Every store the service can reach has each key once, and under each key a record
  carrying that key as its id.
\<close>

definition store_ok :: "store \<Rightarrow> bool" where
  "store_ok todos \<longleftrightarrow> distinct (map fst todos) \<and> list_all (\<lambda>(k, t). id' t = k) todos"

fun run :: "request list \<Rightarrow> store \<Rightarrow> store" where
  "run [] todos = todos"
| "run (r # rs) todos = run rs (snd (handle r todos))"

subsection \<open>Runs of requests\<close>

text \<open>
  The id a create request generates, the ids generated along a list of requests (by
  the create requests whose body passes validation: only those reach the handler), and
  the responses the service gives along the list.
\<close>

definition new_id :: "env \<Rightarrow> string" where
  "new_id e = uuid_str (uuid4 (urandom e))"

fun new_ids :: "request list \<Rightarrow> string list" where
  "new_ids [] = []"
| "new_ids (POST_todos e b # rs) =
     (if validation_errors b = [] then [new_id e] else []) @ new_ids rs"
| "new_ids (_ # rs) = new_ids rs"

fun responses :: "request list \<Rightarrow> store \<Rightarrow> response list" where
  "responses [] todos = []"
| "responses (r # rs) todos = fst (handle r todos) # responses rs (snd (handle r todos))"

fun is_create :: "request \<Rightarrow> bool" where
  "is_create (POST_todos e b) = (validation_errors b = [])"
| "is_create _ = False"

subsection \<open>Sample requests and records\<close>

definition env_0 :: env where
  "env_0 = \<lparr> urandom = 0, now = 1000 \<rparr>"

definition env_1 :: env where
  "env_1 = \<lparr> urandom = 1, now = 2000 \<rparr>"

definition id_0 :: string where
  "id_0 = ''00000000-0000-4000-8000-000000000000''"

definition id_1 :: string where
  "id_1 = ''00000000-0000-4000-8000-000000000001''"

definition body_A :: body where
  "body_A = \<lparr> b_title = JValue ''A'', b_description = JValue ''d'', b_priority = JValue 2,
               b_extra = [] \<rparr>"

definition body_B :: body where
  "body_B = \<lparr> b_title = JValue ''B'', b_description = Absent, b_priority = Absent,
               b_extra = [] \<rparr>"

definition body_D :: body where
  "body_D = \<lparr> b_title = Absent, b_description = JValue ''x'', b_priority = Absent,
               b_extra = [] \<rparr>"

definition body_N :: body where
  "body_N = \<lparr> b_title = JValue ''N'', b_description = Absent, b_priority = JNull,
               b_extra = [] \<rparr>"

definition todo_A :: Todo where
  "todo_A = \<lparr> title = ''A'', description = Some ''d'', priority = Some 2,
               model_fields_set = {''id'', ''created_at'', ''title'', ''description'', ''priority''},
               id' = id_0, created_at = 1000, completed = False \<rparr>"

definition todo_B :: Todo where
  "todo_B = \<lparr> title = ''B'', description = None, priority = Some 1,
               model_fields_set = {''id'', ''created_at'', ''title'', ''completed''},
               id' = id_0, created_at = 1000, completed = False \<rparr>"

definition todo_C :: Todo where
  "todo_C = \<lparr> title = ''B'', description = None, priority = Some 1,
               model_fields_set = {''id'', ''created_at'', ''title'', ''description'', ''priority''},
               id' = id_1, created_at = 2000, completed = False \<rparr>"

section \<open>Basic facts\<close>

subsection \<open>Identifiers, validation, construction\<close>

lemma length_hex32: "length (hex32 w) = 32"
  by (simp add: hex32_def)

lemma length_uuid_str: "length (uuid_str w) = 36"
  by (simp add: uuid_str_def Let_def length_hex32)

lemma validation_errors_Nil:
  "validation_errors b = [] \<longleftrightarrow>
     (\<exists>t. b_title b = JValue t) \<and> b_description b \<noteq> JWrongType \<and> b_priority b \<noteq> JWrongType"
  by (auto simp: validation_errors_def split: json_field.splits)

lemma validate_Inr:
  "TodoCreate_validate b = Inr m \<Longrightarrow> ''title'' \<in> model_fields_set m \<and> b_title b = JValue (title m)"
  by (auto simp: TodoCreate_validate_def validation_errors_def split: if_splits json_field.splits)

lemma create_todo_eq:
  "create_todo e m todos =
     (let t = \<lparr> title = title m, description = description m, priority = priority m,
                model_fields_set = {''id'', ''created_at'', ''title'', ''description'', ''priority''},
                id' = uuid_str (uuid4 (urandom e)), created_at = now e, completed = False \<rparr>
      in (Inr t, AList.update (uuid_str (uuid4 (urandom e))) t todos))"
  by (auto simp: create_todo_def Todo_init_def model_dump_def Let_def insert_commute)

lemma update_todo_eq:
  "''title'' \<in> model_fields_set m \<Longrightarrow>
   update_todo k m old todos =
     (let t = \<lparr> title = title m,
                description = (if ''description'' \<in> model_fields_set m then description m else None),
                priority = (if ''priority'' \<in> model_fields_set m then priority m else Some 1),
                model_fields_set = {''id'', ''created_at'', ''title'', ''completed''}
                   \<union> (if ''description'' \<in> model_fields_set m then {''description''} else {})
                   \<union> (if ''priority'' \<in> model_fields_set m then {''priority''} else {}),
                id' = id' old, created_at = created_at old, completed = completed old \<rparr>
      in (Inr t, AList.update k t todos))"
  by (auto simp: update_todo_def Todo_init_def model_dump_def Let_def insert_commute)

lemma update_todo_cases:
  "update_todo k m old todos = (res, todos') \<Longrightarrow>
     (\<exists>err. res = Inl err \<and> todos' = todos)
   \<or> (\<exists>t. res = Inr t \<and> todos' = AList.update k t todos
          \<and> id' t = id' old \<and> created_at t = created_at old \<and> completed t = completed old)"
  by (auto simp: update_todo_def Todo_init_def split: option.splits)

lemma handle_Failed_store:
  "fst (handle r todos) = Failed err \<Longrightarrow> snd (handle r todos) = todos"
  by (cases r)
     (auto simp: create_todo_eq Let_def delete_todo_def update_todo_def
           split: sum.splits prod.splits if_splits)

subsection \<open>The store invariant\<close>

text \<open>
  The empty store satisfies \<open>store_ok\<close>, and every request keeps it.
\<close>

lemma store_ok_Nil: "store_ok []"
  by (simp add: store_ok_def)

lemma list_all_update:
  "list_all P al \<Longrightarrow> P (k, v) \<Longrightarrow> list_all P (AList.update k v al)"
  by (induction al) auto

lemma store_ok_update: "store_ok todos \<Longrightarrow> id' t = k \<Longrightarrow> store_ok (AList.update k t todos)"
  unfolding store_ok_def
  by (simp add: distinct_update list_all_update)

lemma store_ok_delete: "store_ok todos \<Longrightarrow> store_ok (AList.delete k todos)"
proof -
  assume ok: "store_ok todos"
  then have "distinct (map fst (AList.delete k todos))"
    by (simp add: store_ok_def distinct_delete)
  moreover from ok have "list_all (\<lambda>(k, t). id' t = k) (AList.delete k todos)"
    by (auto simp: store_ok_def list_all_iff AList.delete_eq)
  ultimately show ?thesis
    by (simp add: store_ok_def)
qed

lemma store_ok_lookup: "store_ok todos \<Longrightarrow> map_of todos k = Some t \<Longrightarrow> id' t = k"
  unfolding store_ok_def
  by (auto simp: list_all_iff dest!: map_of_SomeD)

lemma store_ok_handle: "store_ok todos \<Longrightarrow> store_ok (snd (handle r todos))"
  by (cases r)
     (auto simp: create_todo_eq Let_def delete_todo_def get_todo_by_id_def
           intro!: store_ok_update store_ok_delete dest: store_ok_lookup update_todo_cases
           split: sum.splits prod.splits if_splits option.splits)

lemma store_ok_run: "store_ok todos \<Longrightarrow> store_ok (run rs todos)"
  by (induction rs arbitrary: todos) (simp_all add: store_ok_handle)

subsection \<open>One step and many\<close>

lemma handle_keeps_fields:
  assumes "map_of todos k = Some t" "k \<notin> set (new_ids [r])"
    and "map_of (snd (handle r todos)) k = Some t'"
  shows "id' t' = id' t \<and> created_at t' = created_at t \<and> completed t' = completed t"
proof (cases r)
  case (POST_todos e b)
  show ?thesis
  proof (cases "validation_errors b = []")
    case True
    with assms POST_todos show ?thesis
      by (auto simp: TodoCreate_validate_def create_todo_eq Let_def update_conv' new_id_def
            split: if_splits)
  next
    case False
    with assms POST_todos show ?thesis
      by (simp add: TodoCreate_validate_def)
  qed
next
  case GET_todos
  with assms show ?thesis by simp
next
  case (GET_todo j)
  with assms show ?thesis by (simp split: sum.splits)
next
  case (PATCH_todo j b)
  with assms show ?thesis
    by (auto simp: get_todo_by_id_def update_conv'
          split: sum.splits option.splits prod.splits if_splits
          dest!: update_todo_cases)
next
  case (DELETE_todo j)
  with assms show ?thesis
    by (auto simp: get_todo_by_id_def delete_todo_def delete_conv'
          split: sum.splits option.splits prod.splits if_splits)
qed

lemma handle_absent:
  assumes "map_of todos k = None" "k \<notin> set (new_ids [r])"
  shows "map_of (snd (handle r todos)) k = None"
proof (cases r)
  case (POST_todos e b)
  with assms show ?thesis
    by (cases "validation_errors b = []")
       (auto simp: TodoCreate_validate_def create_todo_eq Let_def update_conv' new_id_def)
next
  case GET_todos
  with assms show ?thesis by simp
next
  case (GET_todo j)
  with assms show ?thesis by (simp split: sum.splits)
next
  case (PATCH_todo j b)
  with assms show ?thesis
    by (auto simp: get_todo_by_id_def update_conv'
          split: sum.splits option.splits prod.splits if_splits
          dest!: update_todo_cases)
next
  case (DELETE_todo j)
  with assms show ?thesis
    by (auto simp: get_todo_by_id_def delete_todo_def delete_conv'
          split: sum.splits option.splits prod.splits if_splits)
qed

lemma new_ids_Cons: "set (new_ids (r # rs)) = set (new_ids [r]) \<union> set (new_ids rs)"
  by (cases r) auto

lemma run_absent:
  "map_of todos k = None \<Longrightarrow> k \<notin> set (new_ids rs) \<Longrightarrow> map_of (run rs todos) k = None"
proof (induction rs arbitrary: todos)
  case Nil
  then show ?case by simp
next
  case (Cons r rs)
  from Cons.prems have "k \<notin> set (new_ids [r])" "k \<notin> set (new_ids rs)"
    by (simp_all add: new_ids_Cons [of r rs])
  with Cons.prems(1) Cons.IH [of "snd (handle r todos)"] show ?case
    by (simp add: handle_absent)
qed

lemma update_append:
  "k \<notin> fst ` set al \<Longrightarrow> AList.update k v al = al @ [(k, v)]"
  by (induction al) auto

lemma run_creates:
  "list_all is_create rs \<Longrightarrow> distinct (new_ids rs) \<Longrightarrow>
   set (new_ids rs) \<inter> fst ` set todos = {} \<Longrightarrow>
   map Created (list_todos (run rs todos)) = map Created (list_todos todos) @ responses rs todos
   \<and> length (run rs todos) = length todos + length rs"
proof (induction rs arbitrary: todos)
  case Nil
  then show ?case by simp
next
  case (Cons r rs)
  from Cons.prems(1) obtain e b where r: "r = POST_todos e b" and v: "validation_errors b = []"
    by (cases r) auto
  define m where "m = (case TodoCreate_validate b of Inr m \<Rightarrow> m)"
  define t :: Todo where "t = \<lparr> title = title m, description = description m, priority = priority m,
                model_fields_set = {''id'', ''created_at'', ''title'', ''description'', ''priority''},
                id' = uuid_str (uuid4 (urandom e)), created_at = now e, completed = False \<rparr>"
  from v have val: "TodoCreate_validate b = Inr m"
    by (simp add: m_def TodoCreate_validate_def)
  from Cons.prems(3) r v have "new_id e \<notin> fst ` set todos"
    by auto
  then have h: "handle r todos = (Created t, todos @ [(new_id e, t)])"
    using r val by (simp add: create_todo_eq Let_def t_def new_id_def update_append)
  from Cons.prems r v have "list_all is_create rs" "distinct (new_ids rs)"
      "set (new_ids rs) \<inter> fst ` set (todos @ [(new_id e, t)]) = {}"
    by auto
  from Cons.IH [OF this] h show ?case
    by (simp add: list_todos_def)
qed

subsection \<open>The sample data, evaluated\<close>

lemma uuid_0: "uuid_str (uuid4 0) = id_0"
  by (simp add: uuid_str_def uuid4_def hex32_def hex_digit_def upt_rec id_0_def)

lemma uuid_1: "uuid_str (uuid4 1) = id_1"
  by (simp add: uuid_str_def uuid4_def hex32_def hex_digit_def upt_rec id_1_def)

lemma id_0_neq_1: "id_0 \<noteq> id_1"
  by (simp add: id_0_def id_1_def)

lemma validate_A: "validation_errors body_A = []"
  by (simp add: validation_errors_def body_A_def)

lemma validate_B: "validation_errors body_B = []"
  by (simp add: validation_errors_def body_B_def)

lemma post_A: "handle (POST_todos env_0 body_A) [] = (Created todo_A, [(id_0, todo_A)])"
  by (simp add: TodoCreate_validate_def validation_errors_def create_todo_eq Let_def
        body_A_def env_0_def uuid_0 todo_A_def insert_commute)

lemma post_C:
  "handle (POST_todos env_1 body_B) todos = (Created todo_C, AList.update id_1 todo_C todos)"
  by (simp add: TodoCreate_validate_def validation_errors_def create_todo_eq Let_def
        body_B_def env_1_def uuid_1 todo_C_def insert_commute)

lemma patch_B: "handle (PATCH_todo id_0 body_B) [(id_0, todo_A)] = (Ok todo_B, [(id_0, todo_B)])"
  by (simp add: todo_A_def todo_B_def body_B_def get_todo_by_id_def TodoCreate_validate_def
        validation_errors_def update_todo_def Todo_init_def model_dump_def insert_commute)

lemma update_B:
  "update_todo id_0 \<lparr> title = ''B'', description = None, priority = Some 1,
       model_fields_set = {''title''} \<rparr> todo_A [(id_0, todo_A)]
     = (Inr todo_B, [(id_0, todo_B)])"
  by (simp add: update_todo_def Todo_init_def model_dump_def todo_A_def todo_B_def insert_commute)

lemma run_B_C:
  "run [PATCH_todo id_0 body_B, POST_todos env_1 body_B] [(id_0, todo_A)]
     = [(id_0, todo_B), (id_1, todo_C)]"
  using id_0_neq_1 by (simp add: patch_B post_C del: handle.simps)

lemma new_ids_B_C: "new_ids [PATCH_todo id_0 body_B, POST_todos env_1 body_B] = [id_1]"
  by (simp add: validate_B new_id_def env_1_def uuid_1)

lemma new_ids_A_C: "new_ids [POST_todos env_0 body_A, POST_todos env_1 body_B] = [id_0, id_1]"
  by (simp add: validate_A validate_B new_id_def env_0_def env_1_def uuid_0 uuid_1)

lemma store_ok_A: "store_ok [(id_0, todo_A)]"
  by (simp add: store_ok_def todo_A_def)

lemma lookup_A: "map_of [(id_0, todo_A)] id_0 = Some todo_A"
  by simp

lemma lookup_A_1: "map_of [(id_0, todo_A)] id_1 = None"
  using id_0_neq_1 by simp

lemma fields_B:
  "b_title body_B = JValue ''B''" "b_description body_B = Absent" "b_priority body_B = Absent"
  by (simp_all add: body_B_def)

lemma fields_D: "b_title body_D = Absent"
  by (simp add: body_D_def)

lemma fields_N:
  "b_title body_N = JValue ''N''" "b_description body_N = Absent" "b_priority body_N = JNull"
  by (simp_all add: body_N_def)

lemma get_absent:
  "fst (handle (GET_todo id_1) [(id_0, todo_A)])
     = Failed (HTTPException 404 (''Todo with ID '' @ id_1 @ '' not found''))"
  using id_0_neq_1 by (simp add: get_todo_by_id_def HTTP_404_NOT_FOUND_def)

section \<open>Properties\<close>

subsection \<open>Update\<close>

text \<open>
  C1. The claim: an update overwrites exactly the fields present in the body, and a field
  absent from the body keeps its previous value; creating a todo with title "A",
  description "d", priority 2 and updating it with the body \<^verbatim>\<open>{title: "B"}\<close> gives
  title "B", description "d", priority 2. The code at that input: the create request
  stores description "d" and priority 2, and the update request answers with, and stores,
  a record with title "B", description \<^verbatim>\<open>None\<close> and priority 1, the defaults of the
  class. The keywords that \<^verbatim>\<open>model_dump(exclude_unset=True)\<close> leaves out are not taken
  from the old record; id, creation time and completion are.
\<close>

theorem update_resets_absent_fields:
  "handle (POST_todos env_0 body_A) [] = (Created todo_A, [(id_0, todo_A)])
   \<and> description todo_A = Some ''d'' \<and> priority todo_A = Some 2
   \<and> (\<exists>u. handle (PATCH_todo id_0 body_B) [(id_0, todo_A)] = (Ok u, [(id_0, u)])
          \<and> title u = ''B'' \<and> description u = None \<and> priority u = Some 1
          \<and> id' u = id' todo_A \<and> created_at u = created_at todo_A
          \<and> completed u = completed todo_A)"
proof -
  have "\<exists>u. handle (PATCH_todo id_0 body_B) [(id_0, todo_A)] = (Ok u, [(id_0, u)])
          \<and> title u = ''B'' \<and> description u = None \<and> priority u = Some 1
          \<and> id' u = id' todo_A \<and> created_at u = created_at todo_A
          \<and> completed u = completed todo_A"
    by (simp add: todo_A_def body_B_def get_todo_by_id_def TodoCreate_validate_def
          validation_errors_def update_todo_def Todo_init_def model_dump_def)
  moreover have "description todo_A = Some ''d''" "priority todo_A = Some 2"
    by (simp_all add: todo_A_def)
  ultimately show ?thesis
    using post_A by blast
qed

text \<open>
  C2, as stated, at a concrete input: the body \<^verbatim>\<open>{description: "x"}\<close>, without a
  title, sent for an existing id, is rejected by validation (422, naming \<^verbatim>\<open>title\<close>) and
  the store stays as it was.
\<close>

theorem update_without_title_counterexample:
  "handle (PATCH_todo id_0
       \<lparr> b_title = Absent, b_description = JValue ''x'', b_priority = Absent, b_extra = [] \<rparr>)
     [(id_0, todo_A)]
   = (Failed (RequestValidationError [''title'']), [(id_0, todo_A)])"
  by (simp add: get_todo_by_id_def TodoCreate_validate_def validation_errors_def)

text \<open>
  C2, amended. The update handler accepts a body that holds a title together with any
  subset of description and priority: for an existing id such a request succeeds with
  the updated record, which is stored under that id. A body without a title fails
  validation, with \<^verbatim>\<open>title\<close> among the reported fields, and the store is unchanged.
\<close>

theorem update_accepts_titled_body:
  assumes "map_of todos k = Some old"
  shows "((\<exists>t. b_title b = JValue t) \<and> b_description b \<noteq> JWrongType
            \<and> b_priority b \<noteq> JWrongType \<longrightarrow>
          (\<exists>u. handle (PATCH_todo k b) todos = (Ok u, AList.update k u todos)
               \<and> b_title b = JValue (title u)))
       \<and> (b_title b = Absent \<longrightarrow>
            handle (PATCH_todo k b) todos
              = (Failed (RequestValidationError (validation_errors b)), todos)
            \<and> ''title'' \<in> set (validation_errors b))"
proof (intro conjI impI)
  assume ok: "(\<exists>t. b_title b = JValue t) \<and> b_description b \<noteq> JWrongType
                \<and> b_priority b \<noteq> JWrongType"
  then have "validation_errors b = []"
    by (simp add: validation_errors_Nil)
  then obtain m where m: "TodoCreate_validate b = Inr m"
    by (simp add: TodoCreate_validate_def)
  from validate_Inr [OF m] have t: "''title'' \<in> model_fields_set m" "b_title b = JValue (title m)"
    by simp_all
  show "\<exists>u. handle (PATCH_todo k b) todos = (Ok u, AList.update k u todos)
             \<and> b_title b = JValue (title u)"
    using assms m t by (simp add: get_todo_by_id_def update_todo_eq Let_def)
next
  assume "b_title b = Absent"
  then have e: "''title'' \<in> set (validation_errors b)"
    by (simp add: validation_errors_def)
  then show "handle (PATCH_todo k b) todos
      = (Failed (RequestValidationError (validation_errors b)), todos)"
    using assms by (auto simp: get_todo_by_id_def TodoCreate_validate_def)
  from e show "''title'' \<in> set (validation_errors b)" .
qed

theorem update_accepts_titled_body_witness:
  "map_of [(id_0, todo_A)] id_0 = Some todo_A
   \<and> (\<exists>t. b_title body_B = JValue t) \<and> b_description body_B \<noteq> JWrongType
   \<and> b_priority body_B \<noteq> JWrongType
   \<and> (\<exists>u. handle (PATCH_todo id_0 body_B) [(id_0, todo_A)]
             = (Ok u, AList.update id_0 u [(id_0, todo_A)])
          \<and> b_title body_B = JValue (title u))
   \<and> b_title body_D = Absent
   \<and> handle (PATCH_todo id_0 body_D) [(id_0, todo_A)]
       = (Failed (RequestValidationError (validation_errors body_D)), [(id_0, todo_A)])
   \<and> ''title'' \<in> set (validation_errors body_D)"
proof -
  have h: "(\<exists>t. b_title body_B = JValue t) \<and> b_description body_B \<noteq> JWrongType
      \<and> b_priority body_B \<noteq> JWrongType"
    by (simp add: fields_B)
  from h lookup_A fields_D
    update_accepts_titled_body [OF lookup_A, of body_B]
    update_accepts_titled_body [OF lookup_A, of body_D]
  show ?thesis
    by blast
qed

subsection \<open>Create\<close>

text \<open>
  C3. A create request whose body has a title and neither description nor priority
  returns and stores a record with that title, no description, priority 1, not
  completed, a generated id of 36 characters (so not empty) and the creation time read
  from the clock. A body whose title is missing, \<^verbatim>\<open>null\<close> or of the wrong type fails with
  a validation error naming \<^verbatim>\<open>title\<close>, and the store is unchanged.
\<close>

theorem create_title_only:
  "(b_title b = JValue t \<and> b_description b = Absent \<and> b_priority b = Absent \<longrightarrow>
      (\<exists>new. handle (POST_todos e b) todos = (Created new, AList.update (id' new) new todos)
         \<and> map_of (snd (handle (POST_todos e b) todos)) (id' new) = Some new
         \<and> title new = t \<and> description new = None \<and> priority new = Some 1
         \<and> completed new = False \<and> id' new \<noteq> [] \<and> length (id' new) = 36
         \<and> created_at new = now e))
   \<and> ((\<forall>s. b_title b \<noteq> JValue s) \<longrightarrow>
        handle (POST_todos e b) todos
          = (Failed (RequestValidationError (validation_errors b)), todos)
        \<and> ''title'' \<in> set (validation_errors b))"
proof (intro conjI impI)
  assume a: "b_title b = JValue t \<and> b_description b = Absent \<and> b_priority b = Absent"
  then have "validation_errors b = []"
    by (simp add: validation_errors_def)
  with a show "\<exists>new. handle (POST_todos e b) todos = (Created new, AList.update (id' new) new todos)
         \<and> map_of (snd (handle (POST_todos e b) todos)) (id' new) = Some new
         \<and> title new = t \<and> description new = None \<and> priority new = Some 1
         \<and> completed new = False \<and> id' new \<noteq> [] \<and> length (id' new) = 36
         \<and> created_at new = now e"
    using length_uuid_str [of "uuid4 (urandom e)"]
    by (auto simp: TodoCreate_validate_def create_todo_eq Let_def update_conv')
next
  assume "\<forall>s. b_title b \<noteq> JValue s"
  then have e: "''title'' \<in> set (validation_errors b)"
    by (cases "b_title b") (simp_all add: validation_errors_def)
  then show "handle (POST_todos e b) todos
      = (Failed (RequestValidationError (validation_errors b)), todos)"
    by (auto simp: TodoCreate_validate_def)
  from e show "''title'' \<in> set (validation_errors b)" .
qed

theorem create_title_only_witness:
  "b_title body_B = JValue ''B'' \<and> b_description body_B = Absent \<and> b_priority body_B = Absent
   \<and> (\<exists>new. handle (POST_todos env_1 body_B) [] = (Created new, AList.update (id' new) new [])
         \<and> map_of (snd (handle (POST_todos env_1 body_B) [])) (id' new) = Some new
         \<and> title new = ''B'' \<and> description new = None \<and> priority new = Some 1
         \<and> completed new = False \<and> id' new \<noteq> [] \<and> length (id' new) = 36
         \<and> created_at new = now env_1)
   \<and> (\<forall>s. b_title body_D \<noteq> JValue s)
   \<and> handle (POST_todos env_0 body_D) [(id_0, todo_A)]
        = (Failed (RequestValidationError (validation_errors body_D)), [(id_0, todo_A)])
   \<and> ''title'' \<in> set (validation_errors body_D)"
proof -
  have h: "b_title body_B = JValue ''B'' \<and> b_description body_B = Absent
      \<and> b_priority body_B = Absent"
    by (simp add: fields_B)
  have d: "\<forall>s. b_title body_D \<noteq> JValue s"
    by (simp add: fields_D)
  from h d create_title_only [of body_B "''B''" env_1 "[]"]
    create_title_only [of body_D "''B''" env_0 "[(id_0, todo_A)]"]
  show ?thesis
    by blast
qed

subsection \<open>The lookup\<close>

text \<open>
  C4. The lookup shared by the get, update and delete handlers fails, with status 404
  and a message naming the id, exactly when the id is not a key of the store. For a key
  of the store, the get request answers with exactly the stored record; for an id that
  is not a key, the get, update and delete requests all fail with that error.
\<close>

theorem lookup_not_found_iff:
  "(get_todo_by_id todo_id todos
      = Inl (HTTPException 404 (''Todo with ID '' @ todo_id @ '' not found''))
    \<longleftrightarrow> map_of todos todo_id = None)
   \<and> ((\<exists>err. get_todo_by_id todo_id todos = Inl err) \<longleftrightarrow> map_of todos todo_id = None)
   \<and> (\<forall>todo. map_of todos todo_id = Some todo \<longrightarrow>
         get_todo_by_id todo_id todos = Inr todo
         \<and> handle (GET_todo todo_id) todos = (Ok todo, todos))
   \<and> (map_of todos todo_id = None \<longrightarrow>
         fst (handle (GET_todo todo_id) todos) = Failed (HTTPException 404 (''Todo with ID '' @ todo_id @ '' not found''))
         \<and> fst (handle (PATCH_todo todo_id b) todos) = Failed (HTTPException 404 (''Todo with ID '' @ todo_id @ '' not found''))
         \<and> fst (handle (DELETE_todo todo_id) todos) = Failed (HTTPException 404 (''Todo with ID '' @ todo_id @ '' not found'')))"
  by (auto simp: get_todo_by_id_def get_todo_def HTTP_404_NOT_FOUND_def split: option.splits)

theorem lookup_not_found_iff_witness:
  "map_of [(id_0, todo_A)] id_0 = Some todo_A
   \<and> get_todo_by_id id_0 [(id_0, todo_A)] = Inr todo_A
   \<and> handle (GET_todo id_0) [(id_0, todo_A)] = (Ok todo_A, [(id_0, todo_A)])
   \<and> map_of [(id_0, todo_A)] id_1 = None
   \<and> get_todo_by_id id_1 [(id_0, todo_A)]
       = Inl (HTTPException 404 (''Todo with ID '' @ id_1 @ '' not found''))
   \<and> fst (handle (GET_todo id_1) [(id_0, todo_A)])
       = Failed (HTTPException 404 (''Todo with ID '' @ id_1 @ '' not found''))
   \<and> fst (handle (PATCH_todo id_1 body_B) [(id_0, todo_A)])
       = Failed (HTTPException 404 (''Todo with ID '' @ id_1 @ '' not found''))
   \<and> fst (handle (DELETE_todo id_1) [(id_0, todo_A)])
       = Failed (HTTPException 404 (''Todo with ID '' @ id_1 @ '' not found''))"
  using lookup_A lookup_A_1
    lookup_not_found_iff [of id_0 "[(id_0, todo_A)]" body_B]
    lookup_not_found_iff [of id_1 "[(id_0, todo_A)]" body_B]
  by blast

subsection \<open>Fields that never change\<close>

text \<open>
  C5. The update handler copies id, creation time and completion of the existing
  record into the replacement. Along any list of requests, a record that is in the
  store before and under the same key after has the same id, creation time and
  completion, provided no create request of the list generates that key again (the
  identifier generator returns ids not in use).
\<close>

theorem id_created_at_completed_preserved:
  "(update_todo k m old todos = (Inr u, todos') \<longrightarrow>
      id' u = id' old \<and> created_at u = created_at old \<and> completed u = completed old)
   \<and> (map_of todos k = Some t \<and> k \<notin> set (new_ids rs)
        \<and> map_of (run rs todos) k = Some t' \<longrightarrow>
      id' t' = id' t \<and> created_at t' = created_at t \<and> completed t' = completed t)"
proof -
  have copy: "id' u = id' old \<and> created_at u = created_at old \<and> completed u = completed old"
    if "update_todo k m old todos = (Inr u, todos')"
    using that by (auto dest!: update_todo_cases)
  have "id' t' = id' t \<and> created_at t' = created_at t \<and> completed t' = completed t"
    if "map_of todos k = Some t \<and> k \<notin> set (new_ids rs) \<and> map_of (run rs todos) k = Some t'"
    using that
  proof (induction rs arbitrary: todos t)
    case Nil
    then show ?case by auto
  next
    case (Cons r rs)
    then have fresh: "k \<notin> set (new_ids [r])" "k \<notin> set (new_ids rs)"
      by (simp_all add: new_ids_Cons [of r rs])
    let ?s = "snd (handle r todos)"
    show ?case
    proof (cases "map_of ?s k")
      case None
      with fresh have "map_of (run rs ?s) k = None"
        by (simp add: run_absent)
      with Cons.prems show ?thesis by simp
    next
      case (Some t1)
      with Cons.prems fresh have "id' t1 = id' t \<and> created_at t1 = created_at t \<and> completed t1 = completed t"
        using handle_keeps_fields [of todos k t r t1] by simp
      moreover from Some Cons.prems fresh
      have "id' t' = id' t1 \<and> created_at t' = created_at t1 \<and> completed t' = completed t1"
        using Cons.IH [of ?s t1] by simp
      ultimately show ?thesis by simp
    qed
  qed
  with copy show ?thesis by blast
qed

theorem id_created_at_completed_preserved_witness:
  "update_todo id_0 \<lparr> title = ''B'', description = None, priority = Some 1,
                        model_fields_set = {''title''} \<rparr> todo_A [(id_0, todo_A)]
     = (Inr todo_B, [(id_0, todo_B)])
   \<and> map_of [(id_0, todo_A)] id_0 = Some todo_A
   \<and> id_0 \<notin> set (new_ids [PATCH_todo id_0 body_B, POST_todos env_1 body_B])
   \<and> map_of (run [PATCH_todo id_0 body_B, POST_todos env_1 body_B] [(id_0, todo_A)]) id_0
       = Some todo_B
   \<and> id' todo_B = id' todo_A \<and> created_at todo_B = created_at todo_A
   \<and> completed todo_B = completed todo_A"
proof -
  have fresh: "id_0 \<notin> set (new_ids [PATCH_todo id_0 body_B, POST_todos env_1 body_B])"
    using id_0_neq_1 unfolding new_ids_B_C by simp
  have final: "map_of (run [PATCH_todo id_0 body_B, POST_todos env_1 body_B] [(id_0, todo_A)]) id_0
      = Some todo_B"
    unfolding run_B_C by simp
  from update_B lookup_A fresh final
    id_created_at_completed_preserved [of id_0 "\<lparr> title = ''B'', description = None,
        priority = Some 1, model_fields_set = {''title''} \<rparr>" todo_A "[(id_0, todo_A)]" todo_B
        "[(id_0, todo_B)]" todo_A "[PATCH_todo id_0 body_B, POST_todos env_1 body_B]" todo_B]
  show ?thesis
    by blast
qed

subsection \<open>List\<close>

text \<open>
  C6. The list request answers with every record of the store (with distinct keys, as
  in a dict: exactly the range of the store) and leaves the store as it is; on the empty
  store it answers with the empty list, not an error. After \<open>N\<close> create requests with
  valid bodies and pairwise distinct generated ids on the empty store, the listing
  consists of exactly the \<open>N\<close> records the create requests returned, in that order.
\<close>

theorem list_after_creates:
  "handle GET_todos todos = (OkList (map snd todos), todos)
   \<and> (distinct (map fst todos) \<longrightarrow> set (list_todos todos) = ran (map_of todos))
   \<and> handle GET_todos [] = (OkList [], [])
   \<and> (list_all is_create rs \<and> distinct (new_ids rs) \<longrightarrow>
        map Created (list_todos (run rs [])) = responses rs []
        \<and> length (list_todos (run rs [])) = length rs)"
proof -
  have all: "handle GET_todos todos = (OkList (map snd todos), todos)"
    by (simp add: list_todos_def)
  have ran: "set (list_todos todos) = ran (map_of todos)" if "distinct (map fst todos)"
    using that by (simp add: list_todos_def ran_distinct)
  have empty: "handle GET_todos [] = (OkList [], [])"
    by (simp add: list_todos_def)
  have "map Created (list_todos (run rs [])) = responses rs []
        \<and> length (list_todos (run rs [])) = length rs"
    if a: "list_all is_create rs \<and> distinct (new_ids rs)"
  proof -
  from a have "map Created (list_todos (run rs [])) = map Created (list_todos []) @ responses rs []
      \<and> length (run rs []) = length ([] :: store) + length rs"
    by (intro run_creates) simp_all
  then show ?thesis
    by (simp add: list_todos_def)
  qed
  with all ran empty show ?thesis by blast
qed

theorem list_after_creates_witness:
  "distinct (map fst [(id_0, todo_A)])
   \<and> set (list_todos [(id_0, todo_A)]) = ran (map_of [(id_0, todo_A)])
   \<and> list_all is_create [POST_todos env_0 body_A, POST_todos env_1 body_B]
   \<and> distinct (new_ids [POST_todos env_0 body_A, POST_todos env_1 body_B])
   \<and> map Created (list_todos (run [POST_todos env_0 body_A, POST_todos env_1 body_B] []))
       = responses [POST_todos env_0 body_A, POST_todos env_1 body_B] []
   \<and> length (list_todos (run [POST_todos env_0 body_A, POST_todos env_1 body_B] [])) = 2"
proof -
  have d: "distinct (map fst [(id_0, todo_A)])"
    by simp
  have c: "list_all is_create [POST_todos env_0 body_A, POST_todos env_1 body_B]"
    by (simp add: validate_A validate_B)
  have n: "distinct (new_ids [POST_todos env_0 body_A, POST_todos env_1 body_B])"
    using id_0_neq_1 unfolding new_ids_A_C by simp
  have l: "length [POST_todos env_0 body_A, POST_todos env_1 body_B] = 2"
    by simp
  from d c n
    list_after_creates [of "[(id_0, todo_A)]" "[POST_todos env_0 body_A, POST_todos env_1 body_B]"]
  show ?thesis
    unfolding l by blast
qed

subsection \<open>Delete\<close>

text \<open>
  C7. In a store that satisfies the invariant, deleting an id that is present answers
  with the empty 204 response and removes exactly that key: every other key keeps its
  record, and a get of the deleted id then fails with 404. Deleting an id that is not
  present fails with 404 and leaves the store unchanged.
\<close>

theorem delete_removes_record:
  assumes "store_ok todos"
  shows "(map_of todos k = Some t \<longrightarrow>
            handle (DELETE_todo k) todos = (NoContent, AList.delete k todos)
            \<and> (\<forall>j. map_of (AList.delete k todos) j = (if j = k then None else map_of todos j))
            \<and> handle (GET_todo k) (AList.delete k todos)
                = (Failed (HTTPException 404 (''Todo with ID '' @ k @ '' not found'')),
                   AList.delete k todos))
       \<and> (map_of todos k = None \<longrightarrow>
            handle (DELETE_todo k) todos
              = (Failed (HTTPException 404 (''Todo with ID '' @ k @ '' not found'')), todos))"
proof -
  have present: "handle (DELETE_todo k) todos = (NoContent, AList.delete k todos)"
    if t: "map_of todos k = Some t"
  proof -
    from assms t have "id' t = k"
      by (rule store_ok_lookup)
    moreover from t have "k \<in> fst ` set todos"
      by (auto dest!: map_of_SomeD intro: rev_image_eqI)
    ultimately show ?thesis
      using t by (simp add: get_todo_by_id_def delete_todo_def)
  qed
  have gone: "map_of (AList.delete k todos) j = (if j = k then None else map_of todos j)" for j
    by (simp add: delete_conv')
  then have get: "handle (GET_todo k) (AList.delete k todos)
      = (Failed (HTTPException 404 (''Todo with ID '' @ k @ '' not found'')), AList.delete k todos)"
    by (simp add: get_todo_by_id_def HTTP_404_NOT_FOUND_def)
  have absent: "handle (DELETE_todo k) todos
      = (Failed (HTTPException 404 (''Todo with ID '' @ k @ '' not found'')), todos)"
    if "map_of todos k = None"
    using that by (simp add: get_todo_by_id_def HTTP_404_NOT_FOUND_def)
  from present gone get absent show ?thesis
    by blast
qed

theorem delete_removes_record_witness:
  "store_ok [(id_0, todo_A)]
   \<and> map_of [(id_0, todo_A)] id_0 = Some todo_A
   \<and> handle (DELETE_todo id_0) [(id_0, todo_A)] = (NoContent, AList.delete id_0 [(id_0, todo_A)])
   \<and> map_of (AList.delete id_0 [(id_0, todo_A)]) id_0 = None
   \<and> handle (GET_todo id_0) (AList.delete id_0 [(id_0, todo_A)])
       = (Failed (HTTPException 404 (''Todo with ID '' @ id_0 @ '' not found'')),
          AList.delete id_0 [(id_0, todo_A)])
   \<and> map_of [(id_0, todo_A)] id_1 = None
   \<and> handle (DELETE_todo id_1) [(id_0, todo_A)]
       = (Failed (HTTPException 404 (''Todo with ID '' @ id_1 @ '' not found'')),
          [(id_0, todo_A)])"
proof -
  from delete_removes_record [OF store_ok_A, of id_0 todo_A] lookup_A
  have "handle (DELETE_todo id_0) [(id_0, todo_A)] = (NoContent, AList.delete id_0 [(id_0, todo_A)])
      \<and> map_of (AList.delete id_0 [(id_0, todo_A)]) id_0 = None
      \<and> handle (GET_todo id_0) (AList.delete id_0 [(id_0, todo_A)])
       = (Failed (HTTPException 404 (''Todo with ID '' @ id_0 @ '' not found'')),
          AList.delete id_0 [(id_0, todo_A)])"
    by simp
  with delete_removes_record [OF store_ok_A, of id_1 todo_A] lookup_A lookup_A_1 store_ok_A
  show ?thesis
    by blast
qed

subsection \<open>Completion cannot be updated\<close>

text \<open>
  C8. Whatever the body of an update request for an existing id holds, the record
  stored under that id afterwards has the completion flag it had before. A
  \<^verbatim>\<open>completed\<close> key in the body, with any value, is not a field of \<^verbatim>\<open>TodoCreate\<close>:
  the request is handled exactly as the same request without it.
\<close>

theorem update_keeps_completed:
  "(map_of todos k = Some t \<longrightarrow>
      (\<exists>t'. map_of (snd (handle (PATCH_todo k b) todos)) k = Some t'
           \<and> completed t' = completed t))
   \<and> handle (PATCH_todo k (b\<lparr>b_extra := (''completed'', v) # b_extra b\<rparr>)) todos
       = handle (PATCH_todo k b) todos"
proof -
  have "\<exists>t'. map_of (snd (handle (PATCH_todo k b) todos)) k = Some t'
           \<and> completed t' = completed t"
    if t: "map_of todos k = Some t"
  proof (cases "TodoCreate_validate b")
    case (Inl err)
    with t show ?thesis
      by (simp add: get_todo_by_id_def)
  next
    case (Inr m)
    obtain res todos' where u: "update_todo k m t todos = (res, todos')"
      by (cases "update_todo k m t todos")
    from update_todo_cases [OF u] t Inr u show ?thesis
      by (auto simp: get_todo_by_id_def update_conv')
  qed
  moreover have "handle (PATCH_todo k (b\<lparr>b_extra := (''completed'', v) # b_extra b\<rparr>)) todos
      = handle (PATCH_todo k b) todos"
  proof -
    have "TodoCreate_validate (b\<lparr>b_extra := (''completed'', v) # b_extra b\<rparr>)
        = TodoCreate_validate b"
      by (simp add: TodoCreate_validate_def validation_errors_def)
    then show ?thesis
      unfolding handle.simps by (rule arg_cong)
  qed
  ultimately show ?thesis
    by blast
qed

theorem update_keeps_completed_witness:
  "map_of [(id_0, todo_A)] id_0 = Some todo_A
   \<and> (\<exists>t'. map_of (snd (handle (PATCH_todo id_0 body_B) [(id_0, todo_A)])) id_0 = Some t'
          \<and> completed t' = completed todo_A)
   \<and> handle (PATCH_todo id_0 (body_B\<lparr>b_extra := (''completed'', JSBool True) # b_extra body_B\<rparr>))
        [(id_0, todo_A)]
       = handle (PATCH_todo id_0 body_B) [(id_0, todo_A)]"
  using lookup_A update_keeps_completed [of "[(id_0, todo_A)]" id_0 todo_A body_B "JSBool True"]
  by blast

subsection \<open>Failures leave the store alone\<close>

text \<open>
  C9. A request that fails leaves the store exactly as it was; in particular a get,
  update or delete request for an id that is not in the store fails with the 404 error
  and the store it returns is the store it was given.
\<close>

theorem failed_request_keeps_store:
  "(fst (handle r todos) = Failed (HTTPException 404 msg) \<longrightarrow> snd (handle r todos) = todos)
   \<and> (map_of todos k = None \<longrightarrow>
        handle (GET_todo k) todos
          = (Failed (HTTPException 404 (''Todo with ID '' @ k @ '' not found'')), todos)
        \<and> handle (PATCH_todo k b) todos
          = (Failed (HTTPException 404 (''Todo with ID '' @ k @ '' not found'')), todos)
        \<and> handle (DELETE_todo k) todos
          = (Failed (HTTPException 404 (''Todo with ID '' @ k @ '' not found'')), todos))"
  by (simp add: handle_Failed_store get_todo_by_id_def HTTP_404_NOT_FOUND_def)

theorem failed_request_keeps_store_witness:
  "fst (handle (GET_todo id_1) [(id_0, todo_A)])
     = Failed (HTTPException 404 (''Todo with ID '' @ id_1 @ '' not found''))
   \<and> snd (handle (GET_todo id_1) [(id_0, todo_A)]) = [(id_0, todo_A)]
   \<and> map_of [(id_0, todo_A)] id_1 = None
   \<and> handle (PATCH_todo id_1 body_B) [(id_0, todo_A)]
       = (Failed (HTTPException 404 (''Todo with ID '' @ id_1 @ '' not found'')), [(id_0, todo_A)])
   \<and> handle (DELETE_todo id_1) [(id_0, todo_A)]
       = (Failed (HTTPException 404 (''Todo with ID '' @ id_1 @ '' not found'')), [(id_0, todo_A)])"
  using get_absent lookup_A_1
    failed_request_keeps_store [of "GET_todo id_1" "[(id_0, todo_A)]"
      "''Todo with ID '' @ id_1 @ '' not found''" id_1 body_B]
  by blast

subsection \<open>A priority of null\<close>

text \<open>
  C10. A body with a valid title whose priority is explicitly \<^verbatim>\<open>null\<close> is accepted by
  the create request and by the update request (for an existing id), and the record
  returned and stored has priority \<^verbatim>\<open>None\<close>, not the default; the default 1 is taken
  when the key is left out. So a stored priority need not be an integer.
\<close>

theorem null_priority_stored:
  assumes "b_title b = JValue t" "b_description b \<noteq> JWrongType"
  shows "(b_priority b = JNull \<longrightarrow>
           (\<exists>new. handle (POST_todos e b) todos = (Created new, AList.update (id' new) new todos)
               \<and> map_of (AList.update (id' new) new todos) (id' new) = Some new
               \<and> priority new = None))
       \<and> (b_priority b = JNull \<and> map_of todos k = Some old \<longrightarrow>
           (\<exists>u. handle (PATCH_todo k b) todos = (Ok u, AList.update k u todos)
               \<and> map_of (AList.update k u todos) k = Some u
               \<and> priority u = None))
       \<and> (b_priority b = Absent \<longrightarrow>
           (\<exists>new. handle (POST_todos e b) todos = (Created new, AList.update (id' new) new todos)
               \<and> priority new = Some 1))"
proof -
  have v: "validation_errors b = []" if "b_priority b \<noteq> JWrongType"
    using that assms by (simp add: validation_errors_Nil)
  have c1: "\<exists>new. handle (POST_todos e b) todos = (Created new, AList.update (id' new) new todos)
               \<and> map_of (AList.update (id' new) new todos) (id' new) = Some new
               \<and> priority new = None"
    if "b_priority b = JNull"
    using that v by (simp add: TodoCreate_validate_def create_todo_eq Let_def update_conv')
  have c2: "\<exists>u. handle (PATCH_todo k b) todos = (Ok u, AList.update k u todos)
               \<and> map_of (AList.update k u todos) k = Some u
               \<and> priority u = None"
    if "b_priority b = JNull \<and> map_of todos k = Some old"
    using that v
    by (simp add: TodoCreate_validate_def get_todo_by_id_def update_todo_eq Let_def update_conv')
  have c3: "\<exists>new. handle (POST_todos e b) todos = (Created new, AList.update (id' new) new todos)
               \<and> priority new = Some 1"
    if "b_priority b = Absent"
    using that v by (simp add: TodoCreate_validate_def create_todo_eq Let_def)
  from c1 c2 c3 show ?thesis
    by blast
qed

theorem null_priority_stored_witness:
  "b_title body_N = JValue ''N'' \<and> b_description body_N \<noteq> JWrongType
   \<and> b_priority body_N = JNull
   \<and> (\<exists>new. handle (POST_todos env_1 body_N) [(id_0, todo_A)]
               = (Created new, AList.update (id' new) new [(id_0, todo_A)])
           \<and> map_of (AList.update (id' new) new [(id_0, todo_A)]) (id' new) = Some new
           \<and> priority new = None)
   \<and> map_of [(id_0, todo_A)] id_0 = Some todo_A
   \<and> (\<exists>u. handle (PATCH_todo id_0 body_N) [(id_0, todo_A)]
             = (Ok u, AList.update id_0 u [(id_0, todo_A)])
          \<and> map_of (AList.update id_0 u [(id_0, todo_A)]) id_0 = Some u
          \<and> priority u = None)
   \<and> b_title body_B = JValue ''B'' \<and> b_description body_B \<noteq> JWrongType
   \<and> b_priority body_B = Absent
   \<and> (\<exists>new. handle (POST_todos env_1 body_B) [] = (Created new, AList.update (id' new) new [])
           \<and> priority new = Some 1)"
proof -
  have n: "b_description body_N \<noteq> JWrongType" and b: "b_description body_B \<noteq> JWrongType"
    by (simp_all add: fields_N fields_B)
  from n b fields_N fields_B lookup_A
    null_priority_stored [OF fields_N(1) n, of env_1 "[(id_0, todo_A)]" id_0 todo_A]
    null_priority_stored [OF fields_B(1) b, of env_1 "[]" id_0 todo_A]
  show ?thesis
    by blast
qed

end
